theory Spec2Isabelle
  imports Main
begin

section \<open>Python values, strings and errors\<close>

text \<open>
  The development embeds the data loader of \<^verbatim>\<open>tidypolars4sci\<close> (\<^verbatim>\<open>io.py\<close>, \<^verbatim>\<open>utils.py\<close>).
  Python strings are modelled as HOL strings over the code points 0 to 255. Every exception
  the source can raise is a value of \<open>error\<close>; a function that can raise returns
  \<open>error + 'a\<close> with \<open>Inl\<close> for the exception. Progress messages printed by the source
  are not part of the model.
\<close>

datatype error =
    AssertionError string
  | ValueError string
  | ValueError_column_count nat nat
  | TypeError string
  | IndexError
  | UnboundLocalError string
  | DuplicateError
  | OSError string

text \<open>
  A header cell as \<^verbatim>\<open>DataFrame.rows()\<close> yields it: \<^verbatim>\<open>None\<close>, a \<^verbatim>\<open>str\<close>, or a value
  of another type (an integer, a float, ...). The flattener looks at a value that is not a
  string only through \<^verbatim>\<open>str(val)\<close>, so such a value is carried by that rendering.
\<close>

datatype cell = PyNone | PyStr string | PyOther string

fun str :: "cell \<Rightarrow> string" where
  "str PyNone = ''None''"
| "str (PyStr s) = s"
| "str (PyOther s) = s"

text \<open>\<^verbatim>\<open>str.isspace\<close> on the code points below 256, and \<^verbatim>\<open>str.strip()\<close>.\<close>

definition isspace :: "char \<Rightarrow> bool" where
  "isspace c =
     (c \<in> {CHR 0x09, CHR 0x0A, CHR 0x0B, CHR 0x0C, CHR 0x0D, CHR 0x1C, CHR 0x1D, CHR 0x1E,
           CHR 0x1F, CHR 0x20, CHR 0x85, CHR 0xA0})"

definition strip :: "string \<Rightarrow> string" where
  "strip s = rev (dropWhile isspace (rev (dropWhile isspace s)))"

text \<open>\<^verbatim>\<open>sep.join(xs)\<close>.\<close>

fun join :: "string \<Rightarrow> string list \<Rightarrow> string" where
  "join sep [] = []"
| "join sep [x] = x"
| "join sep (x # y # ys) = x @ sep @ join sep (y # ys)"

text \<open>\<^verbatim>\<open>str(n)\<close> of a natural number, in decimal.\<close>

definition digit_char :: "nat \<Rightarrow> char" where
  "digit_char d = char_of (48 + d)"

fun str_nat :: "nat \<Rightarrow> string" where
  "str_nat n = (if n < 10 then [digit_char n] else str_nat (n div 10) @ [digit_char (n mod 10)])"

declare str_nat.simps [simp del]

section \<open>The hierarchical header flattener\<close>

subsection \<open>The default combine rule\<close>

text \<open>
  \<^verbatim>\<open>read_data._combine_with_parens(levels, sep)\<close>. The filter drops a level that is
  \<^verbatim>\<open>None\<close>, the empty string or the text \<^verbatim>\<open>"None"\<close>; membership in the tuple compares
  with \<^verbatim>\<open>==\<close>, which a value that is not a string never satisfies.
\<close>

definition dropped_level :: "cell \<Rightarrow> bool" where
  "dropped_level l = (l = PyNone \<or> l = PyStr '''' \<or> l = PyStr ''None'')"

definition combine_with_parens :: "cell list \<Rightarrow> string \<Rightarrow> string" where
  "combine_with_parens levels sep =
     (let cleaned = map (\<lambda>l. strip (str l)) (filter (\<lambda>l. \<not> dropped_level l) levels)
      in if cleaned = [] then ''''
         else
           let base = hd cleaned;
               lowers = filter (\<lambda>lvl. lvl \<noteq> '''') (tl cleaned)
           in if lowers = [] then base
              else base @ '' ('' @ join sep lowers @ '')'')"

subsection \<open>Keyword arguments\<close>

text \<open>
  \<^verbatim>\<open>header_combine_rule\<close> is absent (\<open>None\<close>), the shorthand \<^verbatim>\<open>'_'\<close>, or a callable from
  the list of clean levels to a string.
\<close>

datatype combine_rule = Underscore | Callable "string list \<Rightarrow> string"

record flatten_kws =
  header_combine_rule :: "combine_rule option"
  combine_parenthesis_sep :: "string option"
  multi_col_sentinel :: "cell option"

text \<open>
  A polars frame is modelled by its ordered column names and an opaque payload for the
  column data, which the flattener never reads.
\<close>

record 'v frame =
  columns :: "string list"
  payload :: 'v

text \<open>
  \<^verbatim>\<open>DataFrame.rename(mapping)\<close> of polars: every column named by a key of the mapping takes
  the mapped name, all at once; a frame cannot hold two columns of one name, and polars raises
  \<^verbatim>\<open>DuplicateError\<close> when the new names collide.
\<close>

definition rename :: "'v frame \<Rightarrow> (string \<rightharpoonup> string) \<Rightarrow> error + 'v frame" where
  "rename df mapping =
     (let names = map (\<lambda>n. case mapping n of None \<Rightarrow> n | Some n' \<Rightarrow> n') (columns df)
      in if distinct names then Inr (df\<lparr>columns := names\<rparr>) else Inl DuplicateError)"

text \<open>\<^verbatim>\<open>dict(zip(keys, vals))\<close>: a later pair overwrites an earlier one of the same key.\<close>

definition dict_zip :: "'k list \<Rightarrow> 'a list \<Rightarrow> ('k \<rightharpoonup> 'a)" where
  "dict_zip ks vs = map_of (rev (zip ks vs))"

subsection \<open>Phases 1 and 2: forward fill and cleaning of the last level\<close>

definition is_missing :: "cell \<Rightarrow> cell \<Rightarrow> bool" where
  "is_missing sentinel val =
     (val = PyNone \<or> val = PyStr '''' \<or> (case val of PyStr s \<Rightarrow> val = sentinel | _ \<Rightarrow> False))"

text \<open>
  The inner loop of phase 1 over one row, left to right, with the running \<^verbatim>\<open>last_val\<close>
  (\<^verbatim>\<open>None\<close> at the start of the row). A missing cell is overwritten by \<^verbatim>\<open>last_val\<close>,
  any other cell is left as it is and sets \<^verbatim>\<open>last_val = str(val)\<close>.
\<close>

fun forward_fill :: "cell \<Rightarrow> cell \<Rightarrow> cell list \<Rightarrow> cell list" where
  "forward_fill sentinel last_val [] = []"
| "forward_fill sentinel last_val (val # rest) =
     (if is_missing sentinel val then last_val # forward_fill sentinel last_val rest
      else val # forward_fill sentinel (PyStr (str val)) rest)"

text \<open>Phase 2 on the last row.\<close>

definition clean_last :: "cell \<Rightarrow> cell list \<Rightarrow> cell list" where
  "clean_last sentinel row =
     map (\<lambda>val. if is_missing sentinel val then PyNone else PyStr (str val)) row"

text \<open>
  \<^verbatim>\<open>header_rows\<close> after phases 1 and 2: rows \<open>0 .. n_levels - 2\<close> are forward filled, row
  \<open>n_levels - 1\<close> is cleaned. Every row of a frame has the frame's width \<^verbatim>\<open>n_cols\<close>, so the
  loops over \<^verbatim>\<open>range(n_cols)\<close> visit each cell of a row.
\<close>

definition filled_header :: "cell \<Rightarrow> cell list list \<Rightarrow> cell list list" where
  "filled_header sentinel header_rows =
     (let n_levels = length header_rows
      in map (\<lambda>r. if r < n_levels - 1 then forward_fill sentinel PyNone (header_rows ! r)
                   else clean_last sentinel (header_rows ! r))
             [0..<n_levels])"

subsection \<open>Phase 3: clean levels, base names and final names\<close>

definition levels_clean :: "cell list list \<Rightarrow> nat \<Rightarrow> string list" where
  "levels_clean rows c =
     map (\<lambda>x. strip (str x))
         (filter (\<lambda>x. x \<noteq> PyNone \<and> strip (str x) \<noteq> '''') (map (\<lambda>row. row ! c) rows))"

definition base_name :: "string list \<Rightarrow> string option" where
  "base_name lc = (case lc of [] \<Rightarrow> None | b # _ \<Rightarrow> Some b)"

text \<open>
  \<^verbatim>\<open>Counter(b for b in base_names if b is not None)\<close> read with \<^verbatim>\<open>.get(base, 0)\<close>: the number
  of entries of \<^verbatim>\<open>base_names\<close> equal to \<open>base\<close>.
\<close>

definition base_counts :: "string option list \<Rightarrow> string \<Rightarrow> nat" where
  "base_counts base_names base = count_list (filter (\<lambda>b. b \<noteq> None) base_names) (Some base)"

text \<open>
  The keyword parameters of \<^verbatim>\<open>_apply_multiheader_from_frames\<close> with their defaults in the
  signature: \<^verbatim>\<open>combine_parenthesis_sep = '; '\<close> and \<^verbatim>\<open>multi_col_sentinel = "None"\<close>.
\<close>

definition separator_of :: "flatten_kws \<Rightarrow> string" where
  "separator_of kws = (case combine_parenthesis_sep kws of None \<Rightarrow> ''; '' | Some s \<Rightarrow> s)"

definition sentinel_of :: "flatten_kws \<Rightarrow> cell" where
  "sentinel_of kws = (case multi_col_sentinel kws of None \<Rightarrow> PyStr ''None'' | Some s \<Rightarrow> s)"

text \<open>
  The combine rule in effect: \<^verbatim>\<open>kws.get("header_combine_rule", None)\<close> replaced by the
  default rule when it is \<^verbatim>\<open>None\<close> and by the underscore join when it is \<^verbatim>\<open>'_'\<close>.
\<close>

definition combine_of :: "flatten_kws \<Rightarrow> string list \<Rightarrow> string" where
  "combine_of kws =
     (case header_combine_rule kws of
        None \<Rightarrow> (\<lambda>levels. combine_with_parens (map PyStr levels) (separator_of kws))
      | Some Underscore \<Rightarrow> (\<lambda>levels. join ''_'' levels)
      | Some (Callable f) \<Rightarrow> f)"

definition new_names :: "flatten_kws \<Rightarrow> cell list list \<Rightarrow> nat \<Rightarrow> string list" where
  "new_names kws rows n_cols =
     (let cleaned_levels_per_col = map (levels_clean rows) [0..<n_cols];
          base_names = map base_name cleaned_levels_per_col
      in map (\<lambda>c. let lc = cleaned_levels_per_col ! c
                   in if lc = [] then ''column_'' @ str_nat (c + 1)
                      else
                        let base = hd lc
                        in if base_counts base_names base = 1 then base
                           else combine_of kws lc)
             [0..<n_cols])"

subsection \<open>The flattener\<close>

definition apply_multiheader_from_frames ::
  "'v frame \<Rightarrow> cell list list \<Rightarrow> flatten_kws \<Rightarrow> error + 'v frame" where
  "apply_multiheader_from_frames df_data header_rows kws =
     (let n_levels = length header_rows
      in if n_levels = 0
         then Inl (ValueError ''df_header must have at least one row (a header level).'')
         else
           let n_cols = length (header_rows ! 0)
           in if length (columns df_data) \<noteq> n_cols
              then Inl (ValueError_column_count (length (columns df_data)) n_cols)
              else
                let rows = filled_header (sentinel_of kws) header_rows;
                    names = new_names kws rows n_cols
                in rename df_data (dict_zip (columns df_data) names))"

section \<open>The label model\<close>

text \<open>
  A value of the raw variable-label dictionary is \<^verbatim>\<open>None\<close>, a string, or something else; a
  value of the raw value-label dictionary is a dictionary, given by the list of its items, or
  not a dictionary at all. Dictionaries keyed by variable names are maps.
\<close>

datatype label = LabelNone | LabelStr string | LabelOther

datatype 'c value_labels = NotADict | Dict "('c \<times> string) list"

record 'c DATA_LABELS =
  original :: "string list"
  variables :: "string \<rightharpoonup> label"
  values' :: "string \<rightharpoonup> 'c value_labels"

text \<open>\<^verbatim>\<open>DATA_LABELS.__post_init__\<close>.\<close>

definition post_init :: "'c DATA_LABELS \<Rightarrow> 'c DATA_LABELS" where
  "post_init self =
     (let kept = (\<lambda>k. case variables self k of
                         Some (LabelStr v) \<Rightarrow> if strip v \<noteq> '''' then Some (LabelStr v) else None
                       | _ \<Rightarrow> None);
          variables_final =
            fold (\<lambda>var acc. acc(var \<mapsto> (case kept var of None \<Rightarrow> LabelStr var | Some l \<Rightarrow> l)))
                 (original self) Map.empty;
          kept_values = (\<lambda>k. case values' self k of
                                Some (Dict d) \<Rightarrow> if 0 < length d then Some (Dict d) else None
                              | _ \<Rightarrow> None)
      in self\<lparr>variables := variables_final, values' := kept_values\<rparr>)"

section \<open>The path and URL normalizer\<close>

text \<open>
  What the normalizer and the dispatcher ask of the operating system and of the standard
  library is a parameter: \<open>resolve\<close> is \<^verbatim>\<open>str(Path(s).expanduser().resolve())\<close>,
  \<open>unquote_escapes\<close> is \<^verbatim>\<open>urllib.parse.unquote\<close> on a string that contains a percent sign,
  \<open>bracketed_host_ok\<close> says that the parser's check of a bracketed host does not raise, and
  \<open>isfile\<close> is \<^verbatim>\<open>os.path.isfile\<close>.
\<close>

record env =
  resolve :: "string \<Rightarrow> error + string"
  unquote_escapes :: "string \<Rightarrow> string"
  bracketed_host_ok :: "string \<Rightarrow> bool"
  isfile :: "string \<Rightarrow> bool"

text \<open>\<^verbatim>\<open>sub in s\<close> and \<^verbatim>\<open>s.startswith(sub)\<close> on strings.\<close>

definition startswith :: "string \<Rightarrow> string \<Rightarrow> bool" where
  "startswith s sub = (take (length sub) s = sub)"

fun contains :: "string \<Rightarrow> string \<Rightarrow> bool" where
  "contains [] sub = (sub = [])"
| "contains (c # cs) sub = (startswith (c # cs) sub \<or> contains cs sub)"

text \<open>
  \<^verbatim>\<open>urllib.parse.urlparse\<close> as CPython 3.12 defines it through \<^verbatim>\<open>urlsplit\<close>, for the two
  components the normalizer reads and the network location between them. Leading C0 control
  characters and spaces are stripped and tab, carriage return and line feed are removed; a
  scheme is a non-empty run of scheme characters before the first colon that starts with an
  ASCII letter, and is lowered; after \<^verbatim>\<open>//\<close> the network location runs to the first of
  \<^verbatim>\<open>/ ? #\<close>; the path ends at the first \<^verbatim>\<open>#\<close> or \<^verbatim>\<open>?\<close>. \<^verbatim>\<open>urlparse\<close> cuts a
  \<^verbatim>\<open>;parameters\<close> suffix off the path only for the schemes of \<^verbatim>\<open>uses_params\<close>, of which
  \<^verbatim>\<open>file\<close> is none, and the normalizer reads the path only under the scheme \<^verbatim>\<open>file\<close>, so
  \<open>path\<close> is the path of \<^verbatim>\<open>urlsplit\<close>. The parser's last check, on a network location that
  is not ASCII, never raises on code points below 256.
\<close>

record url_parts =
  scheme :: string
  netloc :: string
  path :: string

definition c0_control_or_space :: "char \<Rightarrow> bool" where
  "c0_control_or_space c = ((of_char c :: nat) \<le> 32)"

definition unsafe_url_byte :: "char \<Rightarrow> bool" where
  "unsafe_url_byte c = (c \<in> {CHR 0x09, CHR 0x0D, CHR 0x0A})"

definition ascii_upper :: "char \<Rightarrow> bool" where
  "ascii_upper c = (c \<in> set ''ABCDEFGHIJKLMNOPQRSTUVWXYZ'')"

definition ascii_alpha :: "char \<Rightarrow> bool" where
  "ascii_alpha c = (c \<in> set ''abcdefghijklmnopqrstuvwxyz'' \<or> ascii_upper c)"

definition scheme_char :: "char \<Rightarrow> bool" where
  "scheme_char c = (ascii_alpha c \<or> c \<in> set ''0123456789+-.'')"

definition lower :: "char \<Rightarrow> char" where
  "lower c = (if ascii_upper c then char_of ((of_char c :: nat) + 32) else c)"

definition bracketed_host :: "string \<Rightarrow> string" where
  "bracketed_host loc =
     takeWhile (\<lambda>c. c \<noteq> CHR '']'') (drop 1 (dropWhile (\<lambda>c. c \<noteq> CHR ''['') loc))"

definition urlparse :: "env \<Rightarrow> string \<Rightarrow> error + url_parts" where
  "urlparse env url0 =
     (let url1 = filter (\<lambda>c. \<not> unsafe_url_byte c) (dropWhile c0_control_or_space url0);
          candidate = takeWhile (\<lambda>c. c \<noteq> CHR '':'') url1;
          has_scheme = (CHR '':'' \<in> set url1 \<and> candidate \<noteq> [] \<and> ascii_alpha (hd url1) \<and>
                        list_all scheme_char candidate);
          sch = (if has_scheme then map lower candidate else []);
          url2 = (if has_scheme then drop (length candidate + 1) url1 else url1)
      in if take 2 url2 = ''//''
         then
           let rest = drop 2 url2;
               loc = takeWhile (\<lambda>c. c \<notin> set ''/?#'') rest;
               url3 = dropWhile (\<lambda>c. c \<notin> set ''/?#'') rest
           in if (CHR ''['' \<in> set loc \<and> CHR '']'' \<notin> set loc) \<or>
                 (CHR '']'' \<in> set loc \<and> CHR ''['' \<notin> set loc)
              then Inl (ValueError ''Invalid IPv6 URL'')
              else if CHR ''['' \<in> set loc \<and> CHR '']'' \<in> set loc \<and>
                      \<not> bracketed_host_ok env (bracketed_host loc)
              then Inl (ValueError ''invalid bracketed host'')
              else Inr \<lparr>scheme = sch, netloc = loc,
                        path = takeWhile (\<lambda>c. c \<notin> set ''#?'') url3\<rparr>
         else Inr \<lparr>scheme = sch, netloc = [], path = takeWhile (\<lambda>c. c \<notin> set ''#?'') url2\<rparr>)"

text \<open>\<^verbatim>\<open>urllib.request.url2pathname\<close> on POSIX is \<^verbatim>\<open>unquote\<close>.\<close>

definition url2pathname :: "env \<Rightarrow> string \<Rightarrow> string" where
  "url2pathname env s = (if CHR ''%'' \<in> set s then unquote_escapes env s else s)"

text \<open>
  The argument of the normalizer is \<^verbatim>\<open>None\<close>, a string or a \<^verbatim>\<open>Path\<close> object, which is
  carried by its string and is never falsy.
\<close>

datatype location = StrLoc string | PathLoc string

definition expand_to_full_path_or_url :: "env \<Rightarrow> location option \<Rightarrow> error + string option" where
  "expand_to_full_path_or_url env p =
     (case p of
        None \<Rightarrow> Inr None
      | Some (PathLoc s) \<Rightarrow> map_sum id Some (resolve env s)
      | Some (StrLoc s) \<Rightarrow>
          if s = [] then Inr (Some s)
          else if contains s ''://''
          then (case urlparse env s of
                  Inl e \<Rightarrow> Inl e
                | Inr parsed \<Rightarrow>
                    if scheme parsed = ''file''
                    then map_sum id Some (resolve env (url2pathname env (path parsed)))
                    else if scheme parsed \<noteq> [] then Inr (Some s)
                    else map_sum id Some (resolve env s))
          else map_sum id Some (resolve env s))"

section \<open>The readers and the dispatcher\<close>

text \<open>
  The keyword arguments the modelled code reads. A result is a table, or a table with its
  label model.
\<close>

record read_kws =
  fn :: "location option"
  url :: "string option"
  credentials :: "string option"
  big_data :: bool
  cols :: "string list option"
  rows_range :: "int list option"

datatype ('v, 'c) loaded = Table "'v frame" | Labelled "'v frame" "'c DATA_LABELS"

record 'c sav_meta =
  column_names_to_labels :: "string \<rightharpoonup> label"
  variable_value_labels :: "string \<rightharpoonup> 'c value_labels"

text \<open>
  The external parsers are parameters. \<open>pyreadstat_read_sav\<close> takes the file, \<^verbatim>\<open>usecols\<close>,
  \<^verbatim>\<open>row_offset\<close> and \<^verbatim>\<open>row_limit\<close>; \<open>gspread_load\<close> is the part of \<^verbatim>\<open>read_gspread\<close> after
  its two assertions. Keywords handed through to a parser unchanged are not modelled.
\<close>

record ('v, 'c) readers =
  read_csv :: "read_kws \<Rightarrow> error + ('v, 'c) loaded"
  read_xls :: "read_kws \<Rightarrow> error + ('v, 'c) loaded"
  read_dta :: "read_kws \<Rightarrow> error + ('v, 'c) loaded"
  read_Rdata :: "read_kws \<Rightarrow> error + ('v, 'c) loaded"
  pyreadstat_read_sav ::
    "location option \<Rightarrow> string list option \<Rightarrow> int \<Rightarrow> int \<Rightarrow> error + ('v frame \<times> 'c sav_meta)"
  gspread_load :: "read_kws \<Rightarrow> error + ('v, 'c) loaded"

text \<open>
  The row window of \<^verbatim>\<open>read_sav\<close>: \<open>rows_range\<close> is \<open>None\<close> when the key is absent;
  \<^verbatim>\<open>rows[0]\<close> and \<^verbatim>\<open>rows[1]\<close> raise \<^verbatim>\<open>IndexError\<close> on a shorter list.
\<close>

definition sav_row_window :: "read_kws \<Rightarrow> error + (int \<times> int)" where
  "sav_row_window kws =
     (case rows_range kws of
        Some rows \<Rightarrow>
          (case rows of
             a # b # _ \<Rightarrow> (let row_first = a - 1; row_last = b - row_first in Inr (row_first, row_last))
           | _ \<Rightarrow> Inl IndexError)
      | None \<Rightarrow> Inr (0, 0))"

text \<open>The end of \<^verbatim>\<open>read_sav\<close>: the label model built from the parser's metadata.\<close>

definition sav_labelled :: "'v frame \<times> 'c sav_meta \<Rightarrow> ('v, 'c) loaded" where
  "sav_labelled r =
     (case r of
        (df, meta) \<Rightarrow>
          Labelled df
            (post_init \<lparr>original = columns df,
                        variables = column_names_to_labels meta,
                        values' = variable_value_labels meta\<rparr>))"

definition read_sav :: "('v, 'c) readers \<Rightarrow> read_kws \<Rightarrow> error + ('v, 'c) loaded" where
  "read_sav rd kws =
     (case sav_row_window kws of
        Inl e \<Rightarrow> Inl e
      | Inr (row_first, row_last) \<Rightarrow>
          map_sum id sav_labelled
            (pyreadstat_read_sav rd (fn kws) (cols kws) row_first row_last))"

definition truthy :: "string option \<Rightarrow> bool" where
  "truthy v = (case v of None \<Rightarrow> False | Some s \<Rightarrow> s \<noteq> [])"

definition read_gspread :: "('v, 'c) readers \<Rightarrow> read_kws \<Rightarrow> error + ('v, 'c) loaded" where
  "read_gspread rd kws =
     (if \<not> truthy (credentials kws)
      then Inl (AssertionError
                  ''A json file with google spreadsheet APIcredentials must be provided.'')
      else if \<not> truthy (url kws)
      then Inl (AssertionError ''The google spreadsheet URL must be provided.'')
      else gspread_load rd kws)"

text \<open>
  \<^verbatim>\<open>read_dask.__new__\<close> is defined with no parameter at all; \<open>n_args\<close> is the number of
  positional arguments of a call, the class itself included.
\<close>

definition read_dask_new :: "nat \<Rightarrow> error + ('v, 'c) loaded option" where
  "read_dask_new n_args =
     (if n_args \<noteq> 0 then Inl (TypeError ''__new__() takes 0 positional arguments'')
      else Inr None)"

text \<open>\<^verbatim>\<open>os.path.splitext(p)[1]\<close> on POSIX.\<close>

definition splitext_ext :: "string \<Rightarrow> string" where
  "splitext_ext p =
     (let name = rev (takeWhile (\<lambda>c. c \<noteq> CHR ''/'') (rev p));
          stem = rev (drop 1 (dropWhile (\<lambda>c. c \<noteq> CHR ''.'') (rev name)));
          ext = CHR ''.'' # rev (takeWhile (\<lambda>c. c \<noteq> CHR ''.'') (rev name))
      in if CHR ''.'' \<in> set name \<and> (\<exists>c \<in> set stem. c \<noteq> CHR ''.'') then ext else [])"

definition csv_like :: "string list" where
  "csv_like = [''.csv'', ''.CSV'', ''.tsv'', ''.TSV'', ''.dat'', ''.DAT'', ''.txt'', ''.TXT'']"

definition excel_like :: "string list" where
  "excel_like = [''.xls'', ''.xlsx'', ''.xlt'', ''.XLT'', ''.xltx'', ''.XLTX'', ''.ods'', ''.ODS'',
                 ''.XLS'', ''.XLSX'']"

definition R_files :: "string list" where
  "R_files = [''.Rdata'', ''.rdata'', ''.rda'', ''.rds'']"

definition Stata_files :: "string list" where
  "Stata_files = [''.dta'', ''.DTA'']"

definition SPSS_files :: "string list" where
  "SPSS_files = [''.sav'']"

text \<open>\<^verbatim>\<open>fn_type in ACCEPTED_FILES[family]\<close>, where \<^verbatim>\<open>fn_type\<close> may be \<^verbatim>\<open>None\<close>.\<close>

definition in_family :: "string option \<Rightarrow> string list \<Rightarrow> bool" where
  "in_family fn_type family = (case fn_type of None \<Rightarrow> False | Some t \<Rightarrow> t \<in> set family)"

text \<open>
  \<^verbatim>\<open>read_data.__new__\<close>. \<^verbatim>\<open>re.search("^http", fn)\<close> raises \<^verbatim>\<open>TypeError\<close> when \<^verbatim>\<open>fn\<close> is
  \<^verbatim>\<open>None\<close>. In the \<^verbatim>\<open>big_data\<close> branch \<^verbatim>\<open>read_dask(fn, **kws)\<close> hands the class and
  \<^verbatim>\<open>fn\<close> to \<^verbatim>\<open>read_dask.__new__\<close>, and \<^verbatim>\<open>df\<close> is never assigned before \<^verbatim>\<open>return df\<close>.
\<close>

definition read_data_new ::
  "env \<Rightarrow> ('v, 'c) readers \<Rightarrow> read_kws \<Rightarrow> error + ('v, 'c) loaded option" where
  "read_data_new env rd kws =
     (case expand_to_full_path_or_url env (fn kws) of
        Inl e \<Rightarrow> Inl e
      | Inr fn' \<Rightarrow>
          if \<not> (truthy fn' \<or> truthy (url kws))
          then Inl (AssertionError ''Either fn or url must be provided.'')
          else
            (case fn' of
               None \<Rightarrow> Inl (TypeError ''expected string or bytes-like object'')
             | Some f \<Rightarrow>
                 if \<not> startswith f ''http'' \<and> \<not> isfile env f
                 then Inl (AssertionError (''File '' @ f @ '' not found.''))
                 else
                   let fn_type = (if f \<noteq> [] then Some (splitext_ext f) else None)
                   in if \<not> big_data kws
                      then
                        (if in_family fn_type csv_like then map_sum id Some (read_csv rd kws)
                         else if in_family fn_type excel_like then map_sum id Some (read_xls rd kws)
                         else if in_family fn_type Stata_files then map_sum id Some (read_dta rd kws)
                         else if in_family fn_type SPSS_files then map_sum id Some (read_sav rd kws)
                         else if in_family fn_type R_files then map_sum id Some (read_Rdata rd kws)
                         else if truthy (url kws) \<and> truthy (credentials kws)
                         then map_sum id Some (read_gspread rd kws)
                         else Inr None)
                      else
                        (case (read_dask_new 2 :: error + ('v, 'c) loaded option) of
                           Inl e \<Rightarrow> Inl e
                         | Inr _ \<Rightarrow>
                             Inl (UnboundLocalError
                                    ''cannot access local variable df''))))"

section \<open>Notions of the specification\<close>

text \<open>
  The nearest cell that is not missing strictly to the left of column \<open>c\<close> in a row, if there
  is one.
\<close>

definition nearest_left :: "cell \<Rightarrow> cell list \<Rightarrow> nat \<Rightarrow> cell option" where
  "nearest_left sentinel row c =
     (case filter (\<lambda>v. \<not> is_missing sentinel v) (take c row) of
        [] \<Rightarrow> None
      | v # vs \<Rightarrow> Some (last (v # vs)))"

text \<open>The first level, then the remaining levels joined by the separator in parentheses.\<close>

fun paren_form :: "string \<Rightarrow> string list \<Rightarrow> string" where
  "paren_form sep [] = []"
| "paren_form sep [b] = b"
| "paren_form sep (b # l # ls) = b @ '' ('' @ join sep (l # ls) @ '')''"

text \<open>
  The clean-level stack of column \<open>c\<close> of a header block as the flattener computes it, and the
  number of columns whose base name is \<open>b\<close>.
\<close>

definition clean_stack :: "flatten_kws \<Rightarrow> cell list list \<Rightarrow> nat \<Rightarrow> string list" where
  "clean_stack kws header_rows c = levels_clean (filled_header (sentinel_of kws) header_rows) c"

definition base_occurrences :: "flatten_kws \<Rightarrow> cell list list \<Rightarrow> string \<Rightarrow> nat" where
  "base_occurrences kws header_rows b =
     length (filter (\<lambda>c. base_name (clean_stack kws header_rows c) = Some b)
                    [0..<length (header_rows ! 0)])"

text \<open>The names the flattener computes in phase 3 and hands to \<^verbatim>\<open>rename\<close>.\<close>

definition final_names :: "flatten_kws \<Rightarrow> cell list list \<Rightarrow> string list" where
  "final_names kws header_rows =
     new_names kws (filled_header (sentinel_of kws) header_rows) (length (header_rows ! 0))"

text \<open>A level as phase 3 leaves it: trimmed and not empty.\<close>

definition clean_level :: "string \<Rightarrow> bool" where
  "clean_level l = (strip l = l \<and> l \<noteq> [])"

section \<open>Examples\<close>

definition default_kws :: flatten_kws where
  "default_kws =
     \<lparr>header_combine_rule = None, combine_parenthesis_sep = None, multi_col_sentinel = None\<rparr>"

definition generic_frame :: "unit frame" where
  "generic_frame = \<lparr>columns = [''column_1'', ''column_2'', ''column_3''], payload = ()\<rparr>"

definition party_header :: "cell list list" where
  "party_header =
     [[PyStr ''Party'', PyStr ''Party'', PyStr ''Age''],
      [PyStr ''Code'', PyStr ''Value'', PyStr ''Value'']]"

definition merged_header :: "cell list list" where
  "merged_header =
     [[PyStr ''Party'', PyNone, PyStr ''Age''],
      [PyStr ''Code'', PyStr ''None'', PyStr '''']]"

text \<open>A last-level cell that reads \<^verbatim>\<open>" None"\<close>: it is not the sentinel, and trims to None.\<close>

definition spaced_none_header :: "cell list list" where
  "spaced_none_header =
     [[PyStr ''Party'', PyStr ''Party''],
      [PyStr '' None'', PyStr ''Value'']]"

text \<open>A call with the custom sentinel \<^verbatim>\<open>"-"\<close>.\<close>

definition dash_kws :: flatten_kws where
  "dash_kws =
     \<lparr>header_combine_rule = None, combine_parenthesis_sep = None,
      multi_col_sentinel = Some (PyStr ''-'')\<rparr>"

definition dash_header :: "cell list list" where
  "dash_header =
     [[PyStr ''A'', PyStr ''-'', PyStr ''-''],
      [PyStr ''None'', PyStr '' - '', PyStr ''-'']]"

text \<open>Raw labels of a survey table with the columns age, sex and id.\<close>

definition survey_labels :: "nat DATA_LABELS" where
  "survey_labels =
     \<lparr>original = [''age'', ''sex'', ''id''],
      variables = [''age'' \<mapsto> LabelStr ''Age in years'', ''sex'' \<mapsto> LabelStr ''  '',
                   ''zip'' \<mapsto> LabelNone],
      values' = [''sex'' \<mapsto> Dict [(1, ''Male''), (2, ''Female'')], ''age'' \<mapsto> Dict [],
                 ''id'' \<mapsto> NotADict]\<rparr>"

text \<open>
  \<^verbatim>\<open>str(Path(s).expanduser().resolve())\<close> on POSIX for a file system with no symbolic link,
  the working directory \<^verbatim>\<open>/work\<close> and a path with no \<^verbatim>\<open>~\<close> part: the path is cut at its
  slashes, empty parts and \<^verbatim>\<open>.\<close> parts are dropped, a \<^verbatim>\<open>..\<close> part removes the part before
  it, a relative path starts from the working directory, and the result starts with a single
  slash.
\<close>

fun split_slash :: "string \<Rightarrow> string list" where
  "split_slash [] = [[]]"
| "split_slash (c # cs) =
     (if c = CHR ''/'' then [] # split_slash cs
      else (case split_slash cs of [] \<Rightarrow> [[c]] | x # xs \<Rightarrow> (c # x) # xs))"

definition posix_resolve :: "string \<Rightarrow> string" where
  "posix_resolve s =
     (let parts = filter (\<lambda>p. p \<noteq> [] \<and> p \<noteq> ''.'') (split_slash s);
          start = (if startswith s ''/'' then [] else [''work'']);
          comps = fold (\<lambda>p acc. if p = ''..'' then butlast acc else acc @ [p]) parts start
      in ''/'' @ join ''/'' comps)"

text \<open>
  An environment for concrete evaluation: paths resolve as above, a percent escape is left
  as it is (no evaluated path has one), no bracketed host passes the parser's check, and the
  only file is \<^verbatim>\<open>/data/survey.csv\<close>.
\<close>

definition plain_env :: env where
  "plain_env =
     \<lparr>resolve = (\<lambda>s. Inr (posix_resolve s)),
      unquote_escapes = (\<lambda>s. s),
      bracketed_host_ok = (\<lambda>h. False),
      isfile = (\<lambda>s. s = ''/data/survey.csv'')\<rparr>"

text \<open>
  Readers for concrete evaluation: the SPSS parser answers with a one-column frame whose
  payload records the \<^verbatim>\<open>row_offset\<close> and \<^verbatim>\<open>row_limit\<close> it was given; the other readers
  answer with an empty table.
\<close>

definition echo_readers :: "(int \<times> int, nat) readers" where
  "echo_readers =
     \<lparr>read_csv = (\<lambda>k. Inr (Table \<lparr>columns = [], payload = (0, 0)\<rparr>)),
      read_xls = (\<lambda>k. Inr (Table \<lparr>columns = [], payload = (0, 0)\<rparr>)),
      read_dta = (\<lambda>k. Inr (Table \<lparr>columns = [], payload = (0, 0)\<rparr>)),
      read_Rdata = (\<lambda>k. Inr (Table \<lparr>columns = [], payload = (0, 0)\<rparr>)),
      pyreadstat_read_sav =
        (\<lambda>f c row_offset row_limit.
           Inr (\<lparr>columns = [''age''], payload = (row_offset, row_limit)\<rparr>,
                \<lparr>column_names_to_labels = Map.empty, variable_value_labels = Map.empty\<rparr>)),
      gspread_load = (\<lambda>k. Inr (Table \<lparr>columns = [], payload = (0, 0)\<rparr>))\<rparr>"

definition window_kws :: read_kws where
  "window_kws =
     \<lparr>fn = Some (StrLoc ''/data/survey.sav''), url = None, credentials = None,
      big_data = False, cols = None, rows_range = Some [3, 10]\<rparr>"

text \<open>A call with credentials and a url and no \<^verbatim>\<open>fn\<close>.\<close>

definition gsheet_kws :: read_kws where
  "gsheet_kws =
     \<lparr>fn = None, url = Some ''https://docs.google.com/spreadsheets/d/abc'',
      credentials = Some ''credentials.json'', big_data = False, cols = None,
      rows_range = None\<rparr>"

text \<open>A call on an existing file with \<^verbatim>\<open>big_data=True\<close>.\<close>

definition big_kws :: read_kws where
  "big_kws =
     \<lparr>fn = Some (StrLoc ''/data/survey.csv''), url = None, credentials = None,
      big_data = True, cols = None, rows_range = None\<rparr>"

section \<open>Properties of the flattener\<close>

subsection \<open>Auxiliary facts\<close>

lemma strip_unchanged:
  "s \<noteq> [] \<Longrightarrow> \<not> isspace (hd s) \<Longrightarrow> \<not> isspace (last s) \<Longrightarrow> strip s = s"
proof -
  assume s: "s \<noteq> []" and h: "\<not> isspace (hd s)" and l: "\<not> isspace (last s)"
  have "dropWhile isspace s = s"
    using h by (simp add: dropWhile_eq_self_iff)
  moreover have "dropWhile isspace (rev s) = rev s"
    using s l by (simp add: dropWhile_eq_self_iff hd_rev)
  ultimately show ?thesis by (simp add: strip_def)
qed

lemma length_forward_fill [simp]: "length (forward_fill s lv row) = length row"
  by (induction row arbitrary: lv) auto

lemma nearest_left_0 [simp]: "nearest_left s row 0 = None"
  by (simp add: nearest_left_def)

lemma nearest_left_Suc:
  "nearest_left s (v # row) (Suc c) =
     (case nearest_left s row c of
        None \<Rightarrow> (if is_missing s v then None else Some v)
      | Some w \<Rightarrow> Some w)"
  by (auto simp: nearest_left_def split: list.splits)

lemma forward_fill_nth:
  "c < length row \<Longrightarrow>
   forward_fill s lv row ! c =
     (if is_missing s (row ! c)
      then (case nearest_left s row c of None \<Rightarrow> lv | Some v \<Rightarrow> PyStr (str v))
      else row ! c)"
proof (induction row arbitrary: lv c)
  case Nil
  then show ?case by simp
next
  case (Cons v row)
  show ?case
  proof (cases c)
    case 0
    then show ?thesis by simp
  next
    case (Suc k)
    with Cons.prems have k: "k < length row" by simp
    show ?thesis
      using Cons.IH [OF k] Suc
      by (simp add: nearest_left_Suc split: option.splits)
  qed
qed

lemma dict_zip_lookup:
  "distinct ks \<Longrightarrow> length ks = length vs \<Longrightarrow>
   map (\<lambda>n. case dict_zip ks vs n of None \<Rightarrow> n | Some n' \<Rightarrow> n') ks = vs"
proof (rule nth_equalityI)
  assume d: "distinct ks" and l: "length ks = length vs"
  show "length (map (\<lambda>n. case dict_zip ks vs n of None \<Rightarrow> n | Some n' \<Rightarrow> n') ks) = length vs"
    using l by simp
  fix i
  assume "i < length (map (\<lambda>n. case dict_zip ks vs n of None \<Rightarrow> n | Some n' \<Rightarrow> n') ks)"
  then have i: "i < length ks" by simp
  have "distinct (map fst (rev (zip ks vs)))"
    using d l by (simp add: rev_map [symmetric])
  moreover have "(ks ! i, vs ! i) \<in> set (rev (zip ks vs))"
    using i l by (auto simp: set_zip)
  ultimately have "dict_zip ks vs (ks ! i) = Some (vs ! i)"
    unfolding dict_zip_def by (simp only: map_of_eq_Some_iff)
  then show "map (\<lambda>n. case dict_zip ks vs n of None \<Rightarrow> n | Some n' \<Rightarrow> n') ks ! i = vs ! i"
    using i by simp
qed

lemma count_base:
  "count_list (filter (\<lambda>b. b \<noteq> None) (map f xs)) (Some b) = length (filter (\<lambda>x. f x = Some b) xs)"
  by (induction xs) auto

lemma base_counts_map:
  "base_counts (map f xs) b = length (filter (\<lambda>x. f x = Some b) xs)"
  unfolding base_counts_def by (rule count_base)

lemma new_names_length [simp]: "length (new_names kws rows n) = n"
  by (simp add: new_names_def Let_def)

lemma new_names_nth:
  "c < n \<Longrightarrow>
   new_names kws rows n ! c =
     (case levels_clean rows c of
        [] \<Rightarrow> ''column_'' @ str_nat (c + 1)
      | base # rest \<Rightarrow>
          if length (filter (\<lambda>c'. base_name (levels_clean rows c') = Some base) [0..<n]) = 1
          then base else combine_of kws (base # rest))"
  by (simp add: new_names_def Let_def base_counts_map split: list.splits)

lemma apply_multiheader_columns:
  assumes "apply_multiheader_from_frames df header_rows kws = Inr df'"
    and "distinct (columns df)"
  shows "header_rows \<noteq> [] \<and> length (header_rows ! 0) = length (columns df) \<and>
         columns df' =
           new_names kws (filled_header (sentinel_of kws) header_rows) (length (header_rows ! 0))"
  using assms
  by (auto simp: apply_multiheader_from_frames_def rename_def Let_def dict_zip_lookup
           split: if_splits)

subsection \<open>The example header\<close>

lemma party_filled:
  "filled_header (sentinel_of default_kws) party_header = party_header"
  by (simp add: filled_header_def party_header_def sentinel_of_def default_kws_def
        clean_last_def is_missing_def upt_rec)

lemma party_stacks:
  "clean_stack default_kws party_header 0 = [''Party'', ''Code'']"
  "clean_stack default_kws party_header (Suc 0) = [''Party'', ''Value'']"
  "clean_stack default_kws party_header 2 = [''Age'', ''Value'']"
  unfolding clean_stack_def party_filled
  by (simp_all add: party_header_def levels_clean_def strip_unchanged isspace_def)

lemma party_occurrences:
  "base_occurrences default_kws party_header ''Party'' = 2"
  "base_occurrences default_kws party_header ''Age'' = 1"
proof -
  have n: "[0..<length (party_header ! 0)] = [0, 1, 2]"
    by (simp add: party_header_def upt_rec)
  show "base_occurrences default_kws party_header ''Party'' = 2"
    unfolding base_occurrences_def n by (simp add: party_stacks base_name_def)
  show "base_occurrences default_kws party_header ''Age'' = 1"
    unfolding base_occurrences_def n by (simp add: party_stacks base_name_def)
qed

lemma party_result:
  "apply_multiheader_from_frames generic_frame party_header default_kws =
     Inr \<lparr>columns = [''Party (Code)'', ''Party (Value)'', ''Age''], payload = ()\<rparr>"
proof -
  have n: "length (party_header ! 0) = 3" "length party_header = 2"
    by (simp_all add: party_header_def)
  have u: "[0..<3] = [0, Suc 0, 2]"
    by (simp add: upt_rec)
  have names: "new_names default_kws party_header 3 = [''Party (Code)'', ''Party (Value)'', ''Age'']"
  proof -
    have lc: "map (levels_clean party_header) [0..<3] =
        [[''Party'', ''Code''], [''Party'', ''Value''], [''Age'', ''Value'']]"
      using party_stacks unfolding clean_stack_def party_filled by (simp add: u)
    show ?thesis
      unfolding new_names_def lc Let_def
      by (simp add: u base_name_def base_counts_def combine_of_def separator_of_def default_kws_def
            combine_with_parens_def dropped_level_def strip_unchanged isspace_def)
  qed
  show ?thesis
    unfolding apply_multiheader_from_frames_def Let_def n party_filled names
    by (simp add: generic_frame_def rename_def dict_zip_def)
qed

subsection \<open>Disambiguation\<close>

text \<open>
  Claim C1. Let column \<open>c\<close> of a header block have a non-empty clean-level stack with first
  level \<open>base\<close>. If \<open>base\<close> is the base name of exactly one column, the final name of column
  \<open>c\<close> is \<open>base\<close> alone; if it is the base name of two or more columns, the final name is the
  combine rule applied to the whole clean-level stack. Whenever the flattener returns a
  renamed frame, its columns carry these final names in order. On the header rows Party,
  Party, Age over Code, Value, Value the final names are Party (Code), Party (Value) and Age.
\<close>

theorem flattener_disambiguation:
  assumes "c < length (header_rows ! 0)"
    and "clean_stack kws header_rows c = base # rest"
  shows "(base_occurrences kws header_rows base = 1 \<longrightarrow>
            final_names kws header_rows ! c = base) \<and>
         (2 \<le> base_occurrences kws header_rows base \<longrightarrow>
            final_names kws header_rows ! c = combine_of kws (base # rest)) \<and>
         (\<forall>df df'. distinct (columns df) \<and>
            apply_multiheader_from_frames df header_rows kws = Inr df' \<longrightarrow>
            columns df' = final_names kws header_rows)"
proof -
  have names: "(base_occurrences kws header_rows base = 1 \<longrightarrow>
            final_names kws header_rows ! c = base) \<and>
         (2 \<le> base_occurrences kws header_rows base \<longrightarrow>
            final_names kws header_rows ! c = combine_of kws (base # rest))"
    using assms(2)
      new_names_nth [OF assms(1), of kws "filled_header (sentinel_of kws) header_rows"]
    by (simp add: final_names_def clean_stack_def base_occurrences_def)
  have frame: "columns df' = final_names kws header_rows"
    if "distinct (columns df) \<and> apply_multiheader_from_frames df header_rows kws = Inr df'"
    for df :: "'a frame" and df'
    using that apply_multiheader_columns [of df header_rows kws df']
    by (simp add: final_names_def)
  from names frame show ?thesis by blast
qed

theorem flattener_disambiguation_witness:
  "2 < length (party_header ! 0) \<and>
   clean_stack default_kws party_header 2 = [''Age'', ''Value''] \<and>
   base_occurrences default_kws party_header ''Age'' = 1 \<and>
   final_names default_kws party_header ! 2 = ''Age'' \<and>
   clean_stack default_kws party_header 0 = [''Party'', ''Code''] \<and>
   base_occurrences default_kws party_header ''Party'' = 2 \<and>
   final_names default_kws party_header ! 0 = combine_of default_kws [''Party'', ''Code''] \<and>
   distinct (columns generic_frame) \<and>
   apply_multiheader_from_frames generic_frame party_header default_kws =
     Inr \<lparr>columns = [''Party (Code)'', ''Party (Value)'', ''Age''], payload = ()\<rparr> \<and>
   final_names default_kws party_header = [''Party (Code)'', ''Party (Value)'', ''Age'']"
proof -
  have d: "distinct (columns generic_frame)"
    by (simp add: generic_frame_def)
  have c2: "2 < length (party_header ! 0)" and c0: "0 < length (party_header ! 0)"
    by (simp_all add: party_header_def)
  note age = flattener_disambiguation [OF c2 party_stacks(3)]
  note party = flattener_disambiguation [OF c0 party_stacks(1)]
  have a: "final_names default_kws party_header ! 2 = ''Age''"
    using age party_occurrences(2) by blast
  have p: "final_names default_kws party_header ! 0 = combine_of default_kws [''Party'', ''Code'']"
  proof -
    have "2 \<le> base_occurrences default_kws party_header ''Party''"
      by (simp add: party_occurrences(1))
    with party show ?thesis by blast
  qed
  have f: "columns \<lparr>columns = [''Party (Code)'', ''Party (Value)'', ''Age''], payload = ()\<rparr> =
      final_names default_kws party_header"
    using age d party_result by blast
  show ?thesis
    using c2 party_stacks(1,3) party_occurrences a p d party_result f by simp
qed

subsection \<open>Forward fill\<close>

text \<open>
  Claim C2. In every header row but the last, a cell that is \<^verbatim>\<open>None\<close>, the empty string or
  equal to the merge sentinel takes the text of the nearest cell to its left in the same row
  that is not missing, and becomes \<^verbatim>\<open>None\<close> when there is no such cell; a cell that is not
  missing is left as it is. The last row is not forward filled: its missing cells become
  \<^verbatim>\<open>None\<close> and its other cells keep their text. In the row Party, \<^verbatim>\<open>None\<close>, Age with the
  sentinel \<^verbatim>\<open>"None"\<close> the second cell is filled with Party.
\<close>

theorem forward_fill_upper_levels:
  assumes "r < length header_rows" and "c < length (header_rows ! r)"
  shows "filled_header sentinel header_rows ! r ! c =
     (if r < length header_rows - 1
      then (if is_missing sentinel (header_rows ! r ! c)
            then (case nearest_left sentinel (header_rows ! r) c of
                    None \<Rightarrow> PyNone
                  | Some v \<Rightarrow> PyStr (str v))
            else header_rows ! r ! c)
      else (if is_missing sentinel (header_rows ! r ! c) then PyNone
            else PyStr (str (header_rows ! r ! c))))"
  using assms by (simp add: filled_header_def Let_def forward_fill_nth clean_last_def)

theorem forward_fill_upper_levels_witness:
  "0 < length merged_header \<and> 1 < length (merged_header ! 0) \<and>
   is_missing (PyStr ''None'') (merged_header ! 0 ! 1) \<and>
   nearest_left (PyStr ''None'') (merged_header ! 0) 1 = Some (PyStr ''Party'') \<and>
   filled_header (PyStr ''None'') merged_header ! 0 ! 1 = PyStr ''Party'' \<and>
   1 < length merged_header \<and> 1 < length (merged_header ! 1) \<and>
   filled_header (PyStr ''None'') merged_header ! 1 ! 1 = PyNone"
proof -
  have r0: "0 < length merged_header" and c1: "1 < length (merged_header ! 0)"
    and r1: "1 < length merged_header" and c1': "1 < length (merged_header ! 1)"
    by (simp_all add: merged_header_def)
  have m: "is_missing (PyStr ''None'') (merged_header ! 0 ! 1)"
    by (simp add: merged_header_def is_missing_def)
  have m': "is_missing (PyStr ''None'') (merged_header ! 1 ! 1)"
    by (simp add: merged_header_def is_missing_def)
  have nl: "nearest_left (PyStr ''None'') (merged_header ! 0) 1 = Some (PyStr ''Party'')"
    by (simp add: merged_header_def nearest_left_def is_missing_def)
  have l: "length merged_header = 2"
    by (simp add: merged_header_def)
  have "filled_header (PyStr ''None'') merged_header ! 0 ! 1 = PyStr ''Party''"
    using forward_fill_upper_levels [OF r0 c1, of "PyStr ''None''"] m nl l by simp
  moreover have "filled_header (PyStr ''None'') merged_header ! 1 ! 1 = PyNone"
    using forward_fill_upper_levels [OF r1 c1', of "PyStr ''None''"] m' l by simp
  ultimately show ?thesis
    using r0 c1 r1 c1' m nl by simp
qed

subsection \<open>Shape check\<close>

text \<open>
  Claim C4. A header block with no row, or whose column count differs from the column count
  of the data, makes the flattener raise \<^verbatim>\<open>ValueError\<close> (the shape-mismatch condition) in place
  of returning a renamed frame; the data frame is an argument that is only read. When there
  is a row and the counts agree, no \<^verbatim>\<open>ValueError\<close> is raised.
\<close>

theorem flattener_shape_check:
  "(header_rows = [] \<longrightarrow>
      apply_multiheader_from_frames df header_rows kws =
        Inl (ValueError ''df_header must have at least one row (a header level).'')) \<and>
   (header_rows \<noteq> [] \<and> length (header_rows ! 0) \<noteq> length (columns df) \<longrightarrow>
      apply_multiheader_from_frames df header_rows kws =
        Inl (ValueError_column_count (length (columns df)) (length (header_rows ! 0)))) \<and>
   (header_rows \<noteq> [] \<and> length (header_rows ! 0) = length (columns df) \<longrightarrow>
      (\<forall>msg. apply_multiheader_from_frames df header_rows kws \<noteq> Inl (ValueError msg)) \<and>
      (\<forall>m n. apply_multiheader_from_frames df header_rows kws \<noteq>
               Inl (ValueError_column_count m n)))"
  by (auto simp: apply_multiheader_from_frames_def rename_def Let_def)

theorem flattener_shape_check_witness:
  "apply_multiheader_from_frames generic_frame [] default_kws =
     Inl (ValueError ''df_header must have at least one row (a header level).'') \<and>
   [[PyStr ''Party'', PyStr ''Age'']] \<noteq> [] \<and>
   length ([[PyStr ''Party'', PyStr ''Age'']] ! 0) \<noteq> length (columns generic_frame) \<and>
   apply_multiheader_from_frames generic_frame [[PyStr ''Party'', PyStr ''Age'']] default_kws =
     Inl (ValueError_column_count 3 2) \<and>
   party_header \<noteq> [] \<and> length (party_header ! 0) = length (columns generic_frame) \<and>
   apply_multiheader_from_frames generic_frame party_header default_kws \<noteq>
     Inl (ValueError_column_count 3 3)"
proof -
  have a: "apply_multiheader_from_frames generic_frame [] default_kws =
     Inl (ValueError ''df_header must have at least one row (a header level).'')"
    using flattener_shape_check [of "[]" generic_frame default_kws] by simp
  have b: "[[PyStr ''Party'', PyStr ''Age'']] \<noteq> [] \<and>
      length ([[PyStr ''Party'', PyStr ''Age'']] ! 0) \<noteq> length (columns generic_frame)"
    by (simp add: generic_frame_def)
  have b': "apply_multiheader_from_frames generic_frame [[PyStr ''Party'', PyStr ''Age'']] default_kws =
     Inl (ValueError_column_count 3 2)"
    using flattener_shape_check [of "[[PyStr ''Party'', PyStr ''Age'']]" generic_frame default_kws] b
    by (simp add: generic_frame_def)
  have c: "party_header \<noteq> [] \<and> length (party_header ! 0) = length (columns generic_frame)"
    by (simp add: party_header_def generic_frame_def)
  have c': "apply_multiheader_from_frames generic_frame party_header default_kws \<noteq>
     Inl (ValueError_column_count 3 3)"
    using flattener_shape_check [of party_header generic_frame default_kws] c by blast
  show ?thesis
    using a b b' c c' by blast
qed

subsection \<open>The default combine rule\<close>

lemma combine_with_parens_clean:
  assumes "\<forall>l \<in> set levels. clean_level l"
  shows "combine_with_parens (map PyStr levels) sep =
         paren_form sep (filter (\<lambda>l. l \<noteq> ''None'') levels)"
proof -
  have kept: "map (\<lambda>l. strip (str l)) (filter (\<lambda>l. \<not> dropped_level l) (map PyStr levels)) =
      filter (\<lambda>l. l \<noteq> ''None'') levels"
    using assms
    by (induction levels) (auto simp: dropped_level_def clean_level_def)
  have ne: "\<forall>l \<in> set (filter (\<lambda>l. l \<noteq> ''None'') levels). l \<noteq> []"
    using assms by (auto simp: clean_level_def)
  show ?thesis
  proof (cases "filter (\<lambda>l. l \<noteq> ''None'') levels")
    case Nil
    then show ?thesis
      unfolding combine_with_parens_def kept by simp
  next
    case (Cons b ls)
    with ne have "\<forall>l \<in> set ls. l \<noteq> []" by simp
    then have lowers: "filter (\<lambda>lvl. lvl \<noteq> []) ls = ls"
      by (simp add: filter_id_conv)
    show ?thesis
      unfolding combine_with_parens_def kept Cons Let_def list.sel lowers
      by (cases ls) simp_all
  qed
qed

lemma default_combine_clean:
  assumes "header_combine_rule kws = None" and "\<forall>l \<in> set levels. clean_level l"
  shows "combine_of kws levels =
         paren_form (separator_of kws) (filter (\<lambda>l. l \<noteq> ''None'') levels)"
  using assms by (simp add: combine_of_def combine_with_parens_clean)

lemma clean_level_literal:
  "s \<noteq> [] \<Longrightarrow> \<not> isspace (hd s) \<Longrightarrow> \<not> isspace (last s) \<Longrightarrow> clean_level s"
  by (simp add: clean_level_def strip_unchanged)

lemma clean_examples:
  "clean_level ''Party''" "clean_level ''None''" "clean_level ''Code''" "clean_level ''Value''"
  "clean_level ''A''" "clean_level ''-''"
  by (simp_all add: clean_level_literal isspace_def)

text \<open>
  Claim C3, as stated, fails. With no combine rule and no separator given, the clean-level
  stack Party, None (reached from a last-level cell that reads \<^verbatim>\<open>" None"\<close>) combines to Party,
  not to Party (None): the default rule drops every level that reads None. Also the stack
  Party, Code, Value combines to Party (Code; Value): the separator in effect is the default
  \<^verbatim>\<open>'; '\<close> of the flattener's signature, not \<^verbatim>\<open>', '\<close>.
\<close>

theorem default_combine_rule_counterexample:
  "clean_stack default_kws spaced_none_header 0 = [''Party'', ''None''] \<and>
   combine_of default_kws [''Party'', ''None''] = ''Party'' \<and>
   combine_of default_kws [''Party'', ''None''] \<noteq> ''Party (None)'' \<and>
   combine_of default_kws [''Party'', ''Code'', ''Value''] = ''Party (Code; Value)'' \<and>
   combine_of default_kws [''Party'', ''Code'', ''Value''] \<noteq> ''Party (Code, Value)''"
proof -
  have d: "header_combine_rule default_kws = None" "separator_of default_kws = ''; ''"
    by (simp_all add: default_kws_def separator_of_def)
  have f: "filled_header (sentinel_of default_kws) spaced_none_header = spaced_none_header"
    by (simp add: filled_header_def spaced_none_header_def sentinel_of_def default_kws_def
          clean_last_def is_missing_def upt_rec)
  have s: "clean_stack default_kws spaced_none_header 0 = [''Party'', ''None'']"
    unfolding clean_stack_def f
    by (simp add: spaced_none_header_def levels_clean_def strip_unchanged strip_def isspace_def)
  have a: "combine_of default_kws [''Party'', ''None''] = ''Party''"
    using default_combine_clean [OF d(1), of "[''Party'', ''None'']"] clean_examples by simp
  have b: "combine_of default_kws [''Party'', ''Code'', ''Value''] = ''Party (Code; Value)''"
    using default_combine_clean [OF d(1), of "[''Party'', ''Code'', ''Value'']"] clean_examples d(2)
    by simp
  show ?thesis
    unfolding a b using s by simp
qed

text \<open>
  Claim C3, amended. Under the default combine rule (no combine rule given), a clean-level
  stack none of whose levels reads None combines as follows: a single level to itself with no
  parentheses; two levels \<open>l1\<close>, \<open>l2\<close> to \<open>l1 (l2)\<close>, as Party, Value to Party (Value); and,
  when the separator option is given as \<open>sep\<close>, any stack \<open>l1, l2, ..., ln\<close> to \<open>l1\<close> followed
  by the remaining levels joined by \<open>sep\<close> in parentheses.
\<close>

theorem default_combine_rule:
  assumes "header_combine_rule kws = None"
    and "\<forall>l \<in> set (l1 # rest). clean_level l \<and> l \<noteq> ''None''"
  shows "(rest = [] \<longrightarrow> combine_of kws (l1 # rest) = l1) \<and>
         (\<forall>l2. rest = [l2] \<longrightarrow> combine_of kws (l1 # rest) = l1 @ '' ('' @ l2 @ '')'') \<and>
         (\<forall>sep. combine_parenthesis_sep kws = Some sep \<longrightarrow>
            combine_of kws (l1 # rest) =
              (if rest = [] then l1 else l1 @ '' ('' @ join sep rest @ '')''))"
proof -
  from assms(2) have c: "\<forall>l \<in> set (l1 # rest). clean_level l"
    and k: "filter (\<lambda>l. l \<noteq> ''None'') (l1 # rest) = l1 # rest"
    by (simp_all add: filter_id_conv)
  have e: "combine_of kws (l1 # rest) = paren_form (separator_of kws) (l1 # rest)"
    using default_combine_clean [OF assms(1) c] k by simp
  show ?thesis
    unfolding e by (cases rest) (auto simp: separator_of_def)
qed

theorem default_combine_rule_witness:
  "header_combine_rule default_kws = None \<and>
   clean_level ''Party'' \<and> ''Party'' \<noteq> ''None'' \<and>
   clean_level ''Code'' \<and> ''Code'' \<noteq> ''None'' \<and>
   clean_level ''Value'' \<and> ''Value'' \<noteq> ''None'' \<and>
   combine_of default_kws [''Party'', ''Value''] = ''Party (Value)'' \<and>
   combine_of default_kws [''Party''] = ''Party'' \<and>
   header_combine_rule (default_kws\<lparr>combine_parenthesis_sep := Some '', ''\<rparr>) = None \<and>
   combine_parenthesis_sep (default_kws\<lparr>combine_parenthesis_sep := Some '', ''\<rparr>) = Some '', '' \<and>
   combine_of (default_kws\<lparr>combine_parenthesis_sep := Some '', ''\<rparr>) [''Party'', ''Code'', ''Value'']
     = ''Party (Code, Value)''"
proof -
  have d: "header_combine_rule default_kws = None"
    and d': "header_combine_rule (default_kws\<lparr>combine_parenthesis_sep := Some '', ''\<rparr>) = None"
    and s: "combine_parenthesis_sep (default_kws\<lparr>combine_parenthesis_sep := Some '', ''\<rparr>) = Some '', ''"
    by (simp_all add: default_kws_def)
  have c2: "\<forall>l \<in> set [''Party'', ''Value'']. clean_level l \<and> l \<noteq> ''None''"
    and c1: "\<forall>l \<in> set [''Party'']. clean_level l \<and> l \<noteq> ''None''"
    and c3: "\<forall>l \<in> set [''Party'', ''Code'', ''Value'']. clean_level l \<and> l \<noteq> ''None''"
    using clean_examples by simp_all
  have "combine_of default_kws [''Party'', ''Value''] = ''Party (Value)''"
    using default_combine_rule [OF d c2] by simp
  moreover have "combine_of default_kws [''Party''] = ''Party''"
    using default_combine_rule [OF d c1] by simp
  moreover have "combine_of (default_kws\<lparr>combine_parenthesis_sep := Some '', ''\<rparr>)
      [''Party'', ''Code'', ''Value''] = ''Party (Code, Value)''"
    using default_combine_rule [OF d' c3] s by simp
  ultimately show ?thesis
    using d d' s clean_examples by simp
qed

subsection \<open>The fixed filter of the default combine rule\<close>

text \<open>
  Claim C10. Under the default combine rule and a configured sentinel \<open>s\<close> other than the text
  None, a clean level that reads None is dropped from the combined name (the name is the one
  of the stack without it), while a clean level equal to \<open>s\<close> is kept: the name is built
  from it and from the levels around it that do not read None.
\<close>

theorem default_combine_fixed_filter:
  assumes "header_combine_rule kws = None"
    and "multi_col_sentinel kws = Some (PyStr s)" and "s \<noteq> ''None''"
    and "\<forall>l \<in> set (pre @ post). clean_level l"
  shows "combine_of kws (pre @ [''None''] @ post) = combine_of kws (pre @ post) \<and>
         (clean_level s \<longrightarrow>
            combine_of kws (pre @ [s] @ post) =
              paren_form (separator_of kws)
                (filter (\<lambda>l. l \<noteq> ''None'') pre @ [s] @ filter (\<lambda>l. l \<noteq> ''None'') post))"
proof -
  have n: "clean_level ''None''"
    by (simp add: clean_level_literal isspace_def)
  from assms(4) n have c1: "\<forall>l \<in> set (pre @ [''None''] @ post). clean_level l"
    by auto
  have dropped: "combine_of kws (pre @ [''None''] @ post) = combine_of kws (pre @ post)"
    using default_combine_clean [OF assms(1) c1] default_combine_clean [OF assms(1) assms(4)]
    by simp
  have kept: "combine_of kws (pre @ [s] @ post) =
      paren_form (separator_of kws)
        (filter (\<lambda>l. l \<noteq> ''None'') pre @ [s] @ filter (\<lambda>l. l \<noteq> ''None'') post)"
    if "clean_level s"
  proof -
    from assms(4) that have "\<forall>l \<in> set (pre @ [s] @ post). clean_level l"
      by auto
    from default_combine_clean [OF assms(1) this] assms(3) show ?thesis
      by simp
  qed
  from dropped kept show ?thesis by blast
qed

lemma dash_stacks:
  "clean_stack dash_kws dash_header 0 = [''A'', ''None'']"
  "clean_stack dash_kws dash_header (Suc 0) = [''A'', ''-'']"
  "clean_stack dash_kws dash_header 2 = [''A'']"
proof -
  have f: "filled_header (sentinel_of dash_kws) dash_header =
      [[PyStr ''A'', PyStr ''A'', PyStr ''A''], [PyStr ''None'', PyStr '' - '', PyNone]]"
    by (simp add: filled_header_def dash_header_def sentinel_of_def dash_kws_def
          clean_last_def is_missing_def upt_rec)
  show "clean_stack dash_kws dash_header 0 = [''A'', ''None'']"
    unfolding clean_stack_def f
    by (simp add: levels_clean_def strip_unchanged isspace_def)
  show "clean_stack dash_kws dash_header (Suc 0) = [''A'', ''-'']"
    unfolding clean_stack_def f
    by (simp add: levels_clean_def strip_unchanged strip_def isspace_def)
  show "clean_stack dash_kws dash_header 2 = [''A'']"
    unfolding clean_stack_def f
    by (simp add: levels_clean_def strip_unchanged isspace_def)
qed

theorem default_combine_fixed_filter_witness:
  "header_combine_rule dash_kws = None \<and>
   multi_col_sentinel dash_kws = Some (PyStr ''-'') \<and> ''-'' \<noteq> ''None'' \<and>
   clean_level ''A'' \<and> clean_level ''-'' \<and>
   clean_stack dash_kws dash_header 0 = [''A'', ''None''] \<and>
   clean_stack dash_kws dash_header 1 = [''A'', ''-''] \<and>
   combine_of dash_kws [''A'', ''None''] = combine_of dash_kws [''A''] \<and>
   combine_of dash_kws [''A'', ''-''] = ''A (-)''"
proof -
  have r: "header_combine_rule dash_kws = None"
    and m: "multi_col_sentinel dash_kws = Some (PyStr ''-'')"
    by (simp_all add: dash_kws_def)
  have n: "''-'' \<noteq> ''None''" by simp
  have c: "\<forall>l \<in> set ([''A''] @ []). clean_level l"
    using clean_examples by simp
  from default_combine_fixed_filter [OF r m n c] clean_examples
  have "combine_of dash_kws [''A'', ''None''] = combine_of dash_kws [''A'']"
    and "combine_of dash_kws [''A'', ''-''] = ''A (-)''"
    by simp_all
  then show ?thesis
    using r m clean_examples dash_stacks by simp
qed

section \<open>Properties of the label model\<close>

lemma fold_upd_lookup:
  "fold (\<lambda>var acc. acc(var \<mapsto> g var)) xs m k = (if k \<in> set xs then Some (g k) else m k)"
  by (induction xs arbitrary: m) auto

lemma post_init_variables:
  "variables (post_init dl) var =
     (if var \<in> set (original dl)
      then Some (case variables dl var of
                   Some (LabelStr v) \<Rightarrow> if strip v \<noteq> [] then LabelStr v else LabelStr var
                 | _ \<Rightarrow> LabelStr var)
      else None)"
  by (simp add: post_init_def Let_def fold_upd_lookup split: option.splits label.splits)

lemma post_init_values:
  "values' (post_init dl) k =
     (case values' dl k of
        Some (Dict d) \<Rightarrow> if d \<noteq> [] then Some (Dict d) else None
      | _ \<Rightarrow> None)"
  by (simp add: post_init_def Let_def split: option.splits value_labels.splits)

text \<open>
  Claim C5. After construction of a label model, every name of \<open>original\<close> is a key of
  \<open>variables\<close>: it is mapped to its raw label when that label is a string that is not empty
  after trimming, and to the variable name itself otherwise; the keys of \<open>variables\<close> are
  exactly the names of \<open>original\<close>. Every entry of \<open>values\<close> is a dictionary with at least
  one item.
\<close>

theorem label_model_totality:
  "(\<forall>var \<in> set (original dl).
      variables (post_init dl) var =
        Some (case variables dl var of
                Some (LabelStr v) \<Rightarrow> if strip v \<noteq> [] then LabelStr v else LabelStr var
              | _ \<Rightarrow> LabelStr var)) \<and>
   dom (variables (post_init dl)) = set (original dl) \<and>
   (\<forall>k d. values' (post_init dl) k = Some d \<longrightarrow> (\<exists>items. d = Dict items \<and> items \<noteq> []))"
proof -
  have a: "\<forall>var \<in> set (original dl).
      variables (post_init dl) var =
        Some (case variables dl var of
                Some (LabelStr v) \<Rightarrow> if strip v \<noteq> [] then LabelStr v else LabelStr var
              | _ \<Rightarrow> LabelStr var)"
    by (simp add: post_init_variables)
  have b: "dom (variables (post_init dl)) = set (original dl)"
    by (auto simp: post_init_variables dom_def split: if_splits)
  have c: "\<forall>k d. values' (post_init dl) k = Some d \<longrightarrow> (\<exists>items. d = Dict items \<and> items \<noteq> [])"
    by (auto simp: post_init_values split: option.splits value_labels.splits if_splits)
  from a b c show ?thesis by blast
qed

theorem label_model_totality_witness:
  "''age'' \<in> set (original survey_labels) \<and>
   variables (post_init survey_labels) ''age'' = Some (LabelStr ''Age in years'') \<and>
   ''sex'' \<in> set (original survey_labels) \<and>
   variables (post_init survey_labels) ''sex'' = Some (LabelStr ''sex'') \<and>
   ''id'' \<in> set (original survey_labels) \<and>
   variables (post_init survey_labels) ''id'' = Some (LabelStr ''id'') \<and>
   variables (post_init survey_labels) ''zip'' = None \<and>
   values' (post_init survey_labels) ''sex'' = Some (Dict [(1, ''Male''), (2, ''Female'')]) \<and>
   values' (post_init survey_labels) ''age'' = None \<and>
   values' (post_init survey_labels) ''id'' = None"
proof -
  have o: "''age'' \<in> set (original survey_labels)" "''sex'' \<in> set (original survey_labels)"
    "''id'' \<in> set (original survey_labels)" "''zip'' \<notin> set (original survey_labels)"
    by (simp_all add: survey_labels_def)
  have s: "strip ''Age in years'' = ''Age in years''" "strip ''  '' = []"
    by (simp_all add: strip_def isspace_def)
  have raw: "variables survey_labels ''age'' = Some (LabelStr ''Age in years'')"
    "variables survey_labels ''sex'' = Some (LabelStr ''  '')"
    "variables survey_labels ''id'' = None"
    by (simp_all add: survey_labels_def)
  from label_model_totality [of survey_labels]
  have t: "\<forall>var \<in> set (original survey_labels).
      variables (post_init survey_labels) var =
        Some (case variables survey_labels var of
                Some (LabelStr v) \<Rightarrow> if strip v \<noteq> [] then LabelStr v else LabelStr var
              | _ \<Rightarrow> LabelStr var)"
    and d: "dom (variables (post_init survey_labels)) = set (original survey_labels)"
    by blast+
  have v1: "variables (post_init survey_labels) ''age'' = Some (LabelStr ''Age in years'')"
    using t o(1) raw(1) s(1) by simp
  have v2: "variables (post_init survey_labels) ''sex'' = Some (LabelStr ''sex'')"
    using t o(2) raw(2) s(2) by simp
  have v3: "variables (post_init survey_labels) ''id'' = Some (LabelStr ''id'')"
    using t o(3) raw(3) by simp
  have v4: "variables (post_init survey_labels) ''zip'' = None"
  proof -
    have "''zip'' \<notin> dom (variables (post_init survey_labels))"
      using d o(4) by simp
    then show ?thesis by (simp add: domIff)
  qed
  have w: "values' (post_init survey_labels) ''sex'' = Some (Dict [(1, ''Male''), (2, ''Female'')])"
    "values' (post_init survey_labels) ''age'' = None"
    "values' (post_init survey_labels) ''id'' = None"
    by (simp_all add: post_init_values survey_labels_def)
  show ?thesis
    using o v1 v2 v3 v4 w by simp
qed

section \<open>Properties of the SPSS reader\<close>

text \<open>
  Claim C9. For \<open>rows_range = [a, b]\<close> with \<open>1 \<le> a \<le> b\<close> the SPSS reader calls the parser
  with \<open>row_offset = a - 1\<close>, which is not negative, and \<open>row_limit = b - a + 1\<close>, the number
  of rows from \<open>a\<close> to \<open>b\<close>; with no \<open>rows_range\<close> it calls the parser with
  \<open>row_offset = 0\<close> and \<open>row_limit = 0\<close>. The reader's result is the parser's answer to that
  call, with the label model built from it.
\<close>

theorem sav_row_range:
  "(\<forall>a b. rows_range kws = Some [a, b] \<and> 1 \<le> a \<and> a \<le> b \<longrightarrow>
      sav_row_window kws = Inr (a - 1, b - a + 1) \<and>
      0 \<le> a - 1 \<and> b - a + 1 = int (card {a..b}) \<and>
      read_sav rd kws =
        map_sum id sav_labelled (pyreadstat_read_sav rd (fn kws) (cols kws) (a - 1) (b - a + 1))) \<and>
   (rows_range kws = None \<longrightarrow>
      sav_row_window kws = Inr (0, 0) \<and>
      read_sav rd kws = map_sum id sav_labelled (pyreadstat_read_sav rd (fn kws) (cols kws) 0 0))"
proof -
  have e: "b - (a - 1) = b - a + 1" for a b :: int
    by simp
  show ?thesis
    by (auto simp: sav_row_window_def read_sav_def Let_def e)
qed

theorem sav_row_range_witness:
  "rows_range window_kws = Some [3, 10] \<and> (1::int) \<le> 3 \<and> (3::int) \<le> 10 \<and>
   sav_row_window window_kws = Inr (2, 8) \<and>
   read_sav echo_readers window_kws =
     Inr (Labelled \<lparr>columns = [''age''], payload = (2, 8)\<rparr>
            (post_init \<lparr>original = [''age''], variables = Map.empty, values' = Map.empty\<rparr>)) \<and>
   rows_range big_kws = None \<and>
   read_sav echo_readers big_kws =
     Inr (Labelled \<lparr>columns = [''age''], payload = (0, 0)\<rparr>
            (post_init \<lparr>original = [''age''], variables = Map.empty, values' = Map.empty\<rparr>))"
proof -
  have r: "rows_range window_kws = Some [3, 10]" and n: "rows_range big_kws = None"
    by (simp_all add: window_kws_def big_kws_def)
  from sav_row_range [of window_kws echo_readers] r
  have w: "sav_row_window window_kws = Inr (2, 8)"
    and s: "read_sav echo_readers window_kws =
      map_sum id sav_labelled
        (pyreadstat_read_sav echo_readers (fn window_kws) (cols window_kws) 2 8)"
    by simp_all
  from sav_row_range [of big_kws echo_readers] n
  have s0: "read_sav echo_readers big_kws =
      map_sum id sav_labelled (pyreadstat_read_sav echo_readers (fn big_kws) (cols big_kws) 0 0)"
    by simp
  show ?thesis
    using r n w unfolding s s0
    by (simp add: echo_readers_def sav_labelled_def)
qed

section \<open>Properties of the path and URL normalizer\<close>

lemma safe_literals:
  "\<not> unsafe_url_byte CHR ''f''" "\<not> unsafe_url_byte CHR ''i''" "\<not> unsafe_url_byte CHR ''l''"
  "\<not> unsafe_url_byte CHR ''e''" "\<not> unsafe_url_byte CHR '':''" "\<not> unsafe_url_byte CHR ''/''"
  by (simp_all add: unsafe_url_byte_def)

lemma urlparse_file_url:
  assumes "startswith p ''/''" and "\<forall>c \<in> set p. c \<notin> set ''?#'' \<and> \<not> unsafe_url_byte c"
  shows "urlparse env (''file://'' @ p) = Inr \<lparr>scheme = ''file'', netloc = [], path = p\<rparr>"
proof -
  from assms(1) obtain q where p: "p = CHR ''/'' # q"
    by (cases p) (auto simp: startswith_def)
  from assms(2) have f: "filter (\<lambda>c. \<not> unsafe_url_byte c) q = q"
    and t: "takeWhile (\<lambda>c. c \<noteq> CHR ''#'' \<and> c \<noteq> CHR ''?'') q = q"
    unfolding p by (auto simp: filter_id_conv takeWhile_eq_all_conv)
  show ?thesis
    unfolding p
    by (simp add: urlparse_def Let_def c0_control_or_space_def safe_literals
          f t ascii_alpha_def ascii_upper_def scheme_char_def lower_def)
qed

lemma urlparse_abs_scheme:
  assumes "startswith p ''/''" and "urlparse env p = Inr parsed"
  shows "scheme parsed = []"
proof -
  from assms(1) obtain q where p: "p = CHR ''/'' # q"
    by (cases p) (auto simp: startswith_def)
  have d: "dropWhile c0_control_or_space (CHR ''/'' # q) = CHR ''/'' # q"
    by (simp add: c0_control_or_space_def)
  have f: "filter (\<lambda>c. \<not> unsafe_url_byte c) (CHR ''/'' # q) =
      CHR ''/'' # filter (\<lambda>c. \<not> unsafe_url_byte c) q"
    by (simp add: safe_literals)
  have na: "\<not> ascii_alpha CHR ''/''"
    by (simp add: ascii_alpha_def ascii_upper_def)
  from assms(2) show ?thesis
    unfolding p urlparse_def Let_def d f
    by (auto simp: na split: if_splits)
qed

lemma plain_env_fields:
  "resolve plain_env s = Inr (posix_resolve s)"
  "unquote_escapes plain_env s = s"
  "bracketed_host_ok plain_env h = False"
  "isfile plain_env s = (s = ''/data/survey.csv'')"
  by (simp_all add: plain_env_def)

lemma posix_resolve_examples:
  "posix_resolve ''/tmp/x.csv'' = ''/tmp/x.csv''"
  "posix_resolve ''/tmp/a'' = ''/tmp/a''"
  "posix_resolve ''/tmp/a#b.csv'' = ''/tmp/a#b.csv''"
  "posix_resolve ''s3:bucket/x.csv'' = ''/work/s3:bucket/x.csv''"
  "posix_resolve ''1://x'' = ''/work/1:/x''"
  "posix_resolve ''//srv/x.csv'' = ''/srv/x.csv''"
  "posix_resolve ''//[x://y'' = ''/[x:/y''"
  "posix_resolve ''/data/survey.csv'' = ''/data/survey.csv''"
  by (simp_all add: posix_resolve_def Let_def startswith_def)

lemma urlparse_examples:
  "urlparse plain_env ''https://example.org/data.csv'' =
     Inr \<lparr>scheme = ''https'', netloc = ''example.org'', path = ''/data.csv''\<rparr>"
  "urlparse plain_env ''1://x'' = Inr \<lparr>scheme = [], netloc = [], path = ''1://x''\<rparr>"
  "urlparse plain_env ''s3:bucket/x.csv'' =
     Inr \<lparr>scheme = ''s3'', netloc = [], path = ''bucket/x.csv''\<rparr>"
  "urlparse plain_env ''file:///tmp/a#b.csv'' =
     Inr \<lparr>scheme = ''file'', netloc = [], path = ''/tmp/a''\<rparr>"
  "urlparse plain_env ''//[x://y'' = Inl (ValueError ''Invalid IPv6 URL'')"
  "urlparse plain_env ''file:////[x://y'' =
     Inr \<lparr>scheme = ''file'', netloc = [], path = ''//[x://y''\<rparr>"
  by (simp_all add: urlparse_def Let_def c0_control_or_space_def unsafe_url_byte_def
        ascii_alpha_def ascii_upper_def scheme_char_def lower_def)

lemma contains_examples:
  "contains ''https://example.org/data.csv'' ''://''"
  "contains ''1://x'' ''://''"
  "\<not> contains ''s3:bucket/x.csv'' ''://''"
  "contains ''file:///tmp/a#b.csv'' ''://''"
  "\<not> contains ''/tmp/a#b.csv'' ''://''"
  "contains ''//[x://y'' ''://''"
  "\<not> contains ''/data/survey.csv'' ''://''"
  "contains ''file:////[x://y'' ''://''"
  "\<not> contains ''/tmp/x.csv'' ''://''"
  "\<not> contains ''//srv/x.csv'' ''://''"
  by (simp_all add: startswith_def)

text \<open>
  Claim C8, as stated, fails. The absolute path \<^verbatim>\<open>/tmp/a#b.csv\<close> normalizes to itself, while
  the URL \<^verbatim>\<open>file:///tmp/a#b.csv\<close> normalizes to \<^verbatim>\<open>/tmp/a\<close>: the URL parser ends the path at
  the fragment sign. The string \<^verbatim>\<open>s3:bucket/x.csv\<close> has the scheme \<^verbatim>\<open>s3\<close> for the parser but
  no \<^verbatim>\<open>://\<close>, so it is never parsed and is resolved as a path of the working directory.
  The string \<^verbatim>\<open>//[x://y\<close> is an absolute path that contains \<^verbatim>\<open>://\<close> and has no scheme: the
  parser raises \<^verbatim>\<open>ValueError\<close> on its network location, so it is not treated as a path, while
  \<^verbatim>\<open>file://\<close> followed by it normalizes to a path.
\<close>

theorem path_normalizer_counterexample:
  "expand_to_full_path_or_url plain_env (Some (StrLoc ''file:///tmp/a#b.csv'')) =
     Inr (Some ''/tmp/a'') \<and>
   expand_to_full_path_or_url plain_env (Some (StrLoc ''/tmp/a#b.csv'')) =
     Inr (Some ''/tmp/a#b.csv'') \<and>
   urlparse plain_env ''s3:bucket/x.csv'' =
     Inr \<lparr>scheme = ''s3'', netloc = [], path = ''bucket/x.csv''\<rparr> \<and>
   expand_to_full_path_or_url plain_env (Some (StrLoc ''s3:bucket/x.csv'')) =
     Inr (Some ''/work/s3:bucket/x.csv'') \<and>
   contains ''//[x://y'' ''://'' \<and>
   expand_to_full_path_or_url plain_env (Some (StrLoc ''//[x://y'')) =
     Inl (ValueError ''Invalid IPv6 URL'') \<and>
   expand_to_full_path_or_url plain_env (Some (StrLoc ''file:////[x://y'')) =
     Inr (Some ''/[x:/y'')"
  by (simp add: expand_to_full_path_or_url_def contains_examples urlparse_examples
        plain_env_fields posix_resolve_examples url2pathname_def startswith_def)

text \<open>
  Claim C8, amended. For every absolute path \<open>p\<close> that holds no percent sign, question mark,
  fragment sign, tab, carriage return or line feed, and that the URL parser does not reject
  when \<open>p\<close> contains \<^verbatim>\<open>://\<close>, normalizing \<^verbatim>\<open>file://\<close> followed by \<open>p\<close> gives what
  normalizing \<open>p\<close> gives, the resolved path. A string that contains \<^verbatim>\<open>://\<close> and that the URL
  parser accepts with a scheme that is not empty and not \<^verbatim>\<open>file\<close> is returned unchanged.
  \<^verbatim>\<open>None\<close> and the empty string are returned unchanged. A string that contains \<^verbatim>\<open>://\<close> and
  that the URL parser accepts with no scheme is resolved as a filesystem path.
\<close>

theorem path_normalizer:
  "(\<forall>p. startswith p ''/'' \<and>
        (\<forall>c \<in> set p. c \<notin> set ''%?#'' \<and> \<not> unsafe_url_byte c) \<and>
        (contains p ''://'' \<longrightarrow> (\<exists>parsed. urlparse env p = Inr parsed)) \<longrightarrow>
        expand_to_full_path_or_url env (Some (StrLoc (''file://'' @ p))) =
          expand_to_full_path_or_url env (Some (StrLoc p)) \<and>
        expand_to_full_path_or_url env (Some (StrLoc p)) = map_sum id Some (resolve env p)) \<and>
   (\<forall>s parsed. contains s ''://'' \<and> urlparse env s = Inr parsed \<and>
        scheme parsed \<noteq> [] \<and> scheme parsed \<noteq> ''file'' \<longrightarrow>
        expand_to_full_path_or_url env (Some (StrLoc s)) = Inr (Some s)) \<and>
   expand_to_full_path_or_url env None = Inr None \<and>
   expand_to_full_path_or_url env (Some (StrLoc [])) = Inr (Some []) \<and>
   (\<forall>s parsed. contains s ''://'' \<and> urlparse env s = Inr parsed \<and> scheme parsed = [] \<longrightarrow>
        expand_to_full_path_or_url env (Some (StrLoc s)) = map_sum id Some (resolve env s))"
proof -
  have a: "expand_to_full_path_or_url env (Some (StrLoc (''file://'' @ p))) =
          expand_to_full_path_or_url env (Some (StrLoc p)) \<and>
        expand_to_full_path_or_url env (Some (StrLoc p)) = map_sum id Some (resolve env p)"
    if h: "startswith p ''/'' \<and>
        (\<forall>c \<in> set p. c \<notin> set ''%?#'' \<and> \<not> unsafe_url_byte c) \<and>
        (contains p ''://'' \<longrightarrow> (\<exists>parsed. urlparse env p = Inr parsed))" for p
  proof -
    from h have s: "startswith p ''/''"
      and c1: "\<forall>c \<in> set p. c \<notin> set ''?#'' \<and> \<not> unsafe_url_byte c"
      and pc: "CHR ''%'' \<notin> set p"
      and acc: "contains p ''://'' \<longrightarrow> (\<exists>parsed. urlparse env p = Inr parsed)"
      by auto
    from s have ne: "p \<noteq> []"
      by (auto simp: startswith_def)
    have via_url: "expand_to_full_path_or_url env (Some (StrLoc (''file://'' @ p))) =
        map_sum id Some (resolve env p)"
      using pc
      by (simp add: expand_to_full_path_or_url_def urlparse_file_url [OF s c1, simplified]
            startswith_def url2pathname_def)
    have direct: "expand_to_full_path_or_url env (Some (StrLoc p)) =
        map_sum id Some (resolve env p)"
    proof (cases "contains p ''://''")
      case True
      with acc obtain parsed where u: "urlparse env p = Inr parsed"
        by blast
      from urlparse_abs_scheme [OF s u] have "scheme parsed = []" .
      with u True ne show ?thesis
        by (simp add: expand_to_full_path_or_url_def)
    next
      case False
      with ne show ?thesis
        by (simp add: expand_to_full_path_or_url_def)
    qed
    from via_url direct show ?thesis by simp
  qed
  have b: "expand_to_full_path_or_url env (Some (StrLoc s)) = Inr (Some s)"
    if "contains s ''://'' \<and> urlparse env s = Inr parsed \<and>
        scheme parsed \<noteq> [] \<and> scheme parsed \<noteq> ''file''" for s parsed
    using that by (cases s) (auto simp: expand_to_full_path_or_url_def)
  have c: "expand_to_full_path_or_url env None = Inr None"
    "expand_to_full_path_or_url env (Some (StrLoc [])) = Inr (Some [])"
    by (simp_all add: expand_to_full_path_or_url_def)
  have d: "expand_to_full_path_or_url env (Some (StrLoc s)) = map_sum id Some (resolve env s)"
    if "contains s ''://'' \<and> urlparse env s = Inr parsed \<and> scheme parsed = []" for s parsed
    using that by (cases s) (auto simp: expand_to_full_path_or_url_def)
  from a b c d show ?thesis by blast
qed

theorem path_normalizer_witness:
  "startswith ''/tmp/x.csv'' ''/'' \<and> \<not> contains ''/tmp/x.csv'' ''://'' \<and>
   expand_to_full_path_or_url plain_env (Some (StrLoc ''file:///tmp/x.csv'')) =
     expand_to_full_path_or_url plain_env (Some (StrLoc ''/tmp/x.csv'')) \<and>
   expand_to_full_path_or_url plain_env (Some (StrLoc ''/tmp/x.csv'')) = Inr (Some ''/tmp/x.csv'') \<and>
   startswith ''//srv/x.csv'' ''/'' \<and> \<not> contains ''//srv/x.csv'' ''://'' \<and>
   expand_to_full_path_or_url plain_env (Some (StrLoc ''file:////srv/x.csv'')) =
     expand_to_full_path_or_url plain_env (Some (StrLoc ''//srv/x.csv'')) \<and>
   expand_to_full_path_or_url plain_env (Some (StrLoc ''//srv/x.csv'')) =
     Inr (Some ''/srv/x.csv'') \<and>
   contains ''https://example.org/data.csv'' ''://'' \<and>
   urlparse plain_env ''https://example.org/data.csv'' =
     Inr \<lparr>scheme = ''https'', netloc = ''example.org'', path = ''/data.csv''\<rparr> \<and>
   expand_to_full_path_or_url plain_env (Some (StrLoc ''https://example.org/data.csv'')) =
     Inr (Some ''https://example.org/data.csv'') \<and>
   contains ''1://x'' ''://'' \<and>
   urlparse plain_env ''1://x'' = Inr \<lparr>scheme = [], netloc = [], path = ''1://x''\<rparr> \<and>
   expand_to_full_path_or_url plain_env (Some (StrLoc ''1://x'')) = Inr (Some ''/work/1:/x'')"
proof -
  note t = path_normalizer [of plain_env]
  have h: "startswith ''/tmp/x.csv'' ''/'' \<and>
      (\<forall>c \<in> set ''/tmp/x.csv''. c \<notin> set ''%?#'' \<and> \<not> unsafe_url_byte c) \<and>
      (contains ''/tmp/x.csv'' ''://'' \<longrightarrow> (\<exists>parsed. urlparse plain_env ''/tmp/x.csv'' = Inr parsed))"
    using contains_examples(9) by (simp add: startswith_def unsafe_url_byte_def)
  from t h have a: "expand_to_full_path_or_url plain_env (Some (StrLoc (''file://'' @ ''/tmp/x.csv''))) =
      expand_to_full_path_or_url plain_env (Some (StrLoc ''/tmp/x.csv''))"
    and a': "expand_to_full_path_or_url plain_env (Some (StrLoc ''/tmp/x.csv'')) =
      map_sum id Some (resolve plain_env ''/tmp/x.csv'')"
    by blast+
  have k: "startswith ''//srv/x.csv'' ''/'' \<and>
      (\<forall>c \<in> set ''//srv/x.csv''. c \<notin> set ''%?#'' \<and> \<not> unsafe_url_byte c) \<and>
      (contains ''//srv/x.csv'' ''://'' \<longrightarrow>
         (\<exists>parsed. urlparse plain_env ''//srv/x.csv'' = Inr parsed))"
    using contains_examples(10) by (simp add: startswith_def unsafe_url_byte_def)
  from t k have s: "expand_to_full_path_or_url plain_env (Some (StrLoc (''file://'' @ ''//srv/x.csv''))) =
      expand_to_full_path_or_url plain_env (Some (StrLoc ''//srv/x.csv''))"
    and s': "expand_to_full_path_or_url plain_env (Some (StrLoc ''//srv/x.csv'')) =
      map_sum id Some (resolve plain_env ''//srv/x.csv'')"
    by blast+
  from t contains_examples(1) urlparse_examples(1)
  have b: "expand_to_full_path_or_url plain_env (Some (StrLoc ''https://example.org/data.csv'')) =
      Inr (Some ''https://example.org/data.csv'')"
    by force
  from t contains_examples(2) urlparse_examples(2)
  have c: "expand_to_full_path_or_url plain_env (Some (StrLoc ''1://x'')) =
      map_sum id Some (resolve plain_env ''1://x'')"
    by force
  show ?thesis
    using h k a a' s s' b c contains_examples(1,2,9,10) urlparse_examples(1,2)
    by (simp add: plain_env_fields posix_resolve_examples startswith_def)
qed

section \<open>Properties of the dispatcher\<close>

lemma read_data_new_without_fn:
  "fn kws = None \<Longrightarrow>
   read_data_new env rd kws =
     (if truthy (url kws) then Inl (TypeError ''expected string or bytes-like object'')
      else Inl (AssertionError ''Either fn or url must be provided.''))"
  by (simp add: read_data_new_def expand_to_full_path_or_url_def truthy_def)

lemma read_data_new_big_data:
  "big_data kws \<Longrightarrow> read_data_new env rd kws \<noteq> Inr r"
  by (auto simp: read_data_new_def read_dask_new_def Let_def split: sum.splits option.splits)

text \<open>
  Claim C6. A call with credentials and a url and no \<^verbatim>\<open>fn\<close> passes the argument assertion
  and then raises \<^verbatim>\<open>TypeError\<close> in \<^verbatim>\<open>re.search("^http", fn)\<close>, since \<^verbatim>\<open>fn\<close> is \<^verbatim>\<open>None\<close>:
  it never reaches the dispatch, and the remote-spreadsheet reader is not called.
\<close>

theorem read_data_url_without_fn:
  "fn gsheet_kws = None \<and> truthy (url gsheet_kws) \<and> truthy (credentials gsheet_kws) \<and>
   read_data_new plain_env echo_readers gsheet_kws =
     Inl (TypeError ''expected string or bytes-like object'')"
proof -
  have f: "fn gsheet_kws = None" and u: "truthy (url gsheet_kws)"
    and c: "truthy (credentials gsheet_kws)"
    by (simp_all add: gsheet_kws_def truthy_def)
  from read_data_new_without_fn [OF f, of plain_env echo_readers] u f c show ?thesis
    by simp
qed

text \<open>
  Claim C7. A call on an existing file with \<^verbatim>\<open>big_data=True\<close> does not yield a null result:
  \<^verbatim>\<open>read_dask(fn, **kws)\<close> raises \<^verbatim>\<open>TypeError\<close>, because \<^verbatim>\<open>read_dask.__new__\<close> is defined
  with no parameter.
\<close>

theorem read_data_big_data_raises:
  "read_data_new plain_env echo_readers big_kws =
     Inl (TypeError ''__new__() takes 0 positional arguments'')"
proof -
  have e: "expand_to_full_path_or_url plain_env (fn big_kws) = Inr (Some ''/data/survey.csv'')"
    by (simp add: big_kws_def expand_to_full_path_or_url_def contains_examples
          plain_env_fields posix_resolve_examples startswith_def)
  show ?thesis
    unfolding read_data_new_def e
    by (simp add: big_kws_def truthy_def plain_env_fields read_dask_new_def)
qed

end
